theory Spec2Isabelle
  imports Main "HOL-Library.Word"
begin

section \<open>The image generator of \<^verbatim>\<open>generate_image.py\<close>\<close>

text \<open>
  The script is one linear sequence: import the imaging library (the only guarded step),
  allocate a canvas, draw one filled rectangle through a drawing handle, save the canvas
  and print a confirmation. The model below follows it line by line. The imaging library
  itself is not part of the repository; what its calls do is written down once, in the
  subsection on the library, and everything else is the script.
\<close>

subsection \<open>Exceptions and how a process ends\<close>

text \<open>
  The exception classes that matter here. \<^verbatim>\<open>ModuleNotFoundError\<close> is the subclass of
  \<^verbatim>\<open>ImportError\<close> that the interpreter raises for a module that is not installed;
  \<^verbatim>\<open>except ImportError\<close> catches both.
\<close>

datatype exn = ImportError | ModuleNotFoundError | OSError | MemoryError | ValueError | TypeError

fun isinstance :: "exn \<Rightarrow> exn \<Rightarrow> bool" where
  "isinstance ModuleNotFoundError ImportError = True"
| "isinstance e c = (e = c)"

text \<open>
  A run ends by falling off the end of the script (exit status 0), by \<^verbatim>\<open>sys.exit(n)\<close>,
  or with an exception nobody caught (the interpreter then prints its traceback and the
  status is non-zero; the traceback text is not modelled, the outcome stands for it).
\<close>

datatype outcome = Finished | Exit int | Uncaught exn

subsection \<open>Pixels, images, files\<close>

type_synonym rgb = "8 word \<times> 8 word \<times> 8 word"

text \<open>An image: its mode, its size (width, height) and the pixel rows, top row first.\<close>

record image =
  mode :: string
  im_size :: "nat \<times> nat"
  pixels :: "rgb list list"

text \<open>
  Reading one pixel of a canvas; \<open>None\<close> outside of it. This is the observation the
  properties are stated with; the script never reads a pixel.
\<close>

definition pixel_at :: "image \<Rightarrow> int \<times> int \<Rightarrow> rgb option" where
  "pixel_at im xy =
     (case xy of (x, y) \<Rightarrow>
        if 0 \<le> x \<and> x < int (fst (im_size im)) \<and> 0 \<le> y \<and> y < int (snd (im_size im))
        then Some (pixels im ! nat y ! nat x) else None)"

text \<open>
  Modelled from the spec: the PNG encoder of the imaging library, which is not in the
  repository. The spec calls the rendering deterministic, with no randomness and no
  timestamp embedded: the bytes written are a function of the canvas alone. A PNG file is
  therefore represented by the canvas it encodes; any other file by its bytes.
\<close>

datatype file_data = PNG image | Bytes "8 word list"

subsection \<open>The environment of a run\<close>

text \<open>The calls the script makes that can raise, in program order.\<close>

datatype step = Import_PIL | Call_Image_new | Call_ImageDraw_Draw | Call_rectangle | Call_save

definition program_order :: "step list" where
  "program_order = [Import_PIL, Call_Image_new, Call_ImageDraw_Draw, Call_rectangle, Call_save]"

text \<open>
  The world a run starts in and leaves behind: what the environment makes each call raise
  (\<open>None\<close>: the call goes through; a missing library is \<open>raises w Import_PIL = Some e\<close>
  with \<open>e\<close> an \<^verbatim>\<open>ImportError\<close>, a full disk is \<open>raises w Call_save = Some OSError\<close>),
  the files of the working directory by name, and the lines written to standard output
  and standard error.
\<close>

record world =
  raises :: "step \<Rightarrow> exn option"
  files :: "string \<Rightarrow> file_data option"
  stdout :: "string list"
  stderr :: "string list"

definition print_out :: "world \<Rightarrow> string \<Rightarrow> world" where
  "print_out w line = w\<lparr>stdout := stdout w @ [line]\<rparr>"

definition print_err :: "world \<Rightarrow> string \<Rightarrow> world" where
  "print_err w line = w\<lparr>stderr := stderr w @ [line]\<rparr>"

text \<open>
  A call: the environment's fault first, otherwise the call's own result. A call that
  raises is taken to have done nothing before it raised.
\<close>

definition call :: "world \<Rightarrow> step \<Rightarrow> (exn + 'a) \<Rightarrow> exn + 'a" where
  "call w s r = (case raises w s of Some e \<Rightarrow> Inl e | None \<Rightarrow> r)"

subsection \<open>The imaging library\<close>

text \<open>
  Modelled from the spec: the colour names of the imaging library (not in the
  repository). The spec names the background colour white and the fill colour blue, on a
  3-channel canvas; the two entries are the library's table for these names. Any other
  name is refused.
\<close>

definition colormap :: "(string \<times> rgb) list" where
  "colormap = [(''white'', (255, 255, 255)), (''blue'', (0, 0, 255))]"

definition getrgb :: "string \<Rightarrow> exn + rgb" where
  "getrgb name = (case map_of colormap name of None \<Rightarrow> Inl ValueError | Some c \<Rightarrow> Inr c)"

text \<open>
  Image objects live in a store and are handled by reference: the drawing handle keeps a
  reference to the image it was made for, and drawing through the handle changes that
  image. A reference is an index into the store.
\<close>

type_synonym ref = nat
type_synonym heap = "image list"

record imagedraw =
  target :: ref

text \<open>
  Modelled from the spec: \<^verbatim>\<open>Image.new(mode, size, color)\<close> of the imaging library (not
  in the repository): "allocate a canvas of the given dimensions filled with the
  background color". Only the 3-channel mode is modelled; a negative dimension is refused.
\<close>

definition Image_new :: "heap \<Rightarrow> string \<Rightarrow> int \<times> int \<Rightarrow> string \<Rightarrow> exn + (heap \<times> ref)" where
  "Image_new h m sz color =
     (case sz of (wd, ht) \<Rightarrow>
        if m \<noteq> ''RGB'' \<or> wd < 0 \<or> ht < 0 then Inl ValueError
        else (case getrgb color of
                Inl e \<Rightarrow> Inl e
              | Inr c \<Rightarrow>
                  Inr (h @ [\<lparr>mode = m, im_size = (nat wd, nat ht),
                             pixels = replicate (nat ht) (replicate (nat wd) c)\<rparr>],
                       length h)))"

text \<open>
  Modelled from the spec: \<^verbatim>\<open>ImageDraw.Draw(image)\<close> of the imaging library (not in the
  repository): a handle that draws on the given image.
\<close>

definition ImageDraw_Draw :: "heap \<Rightarrow> ref \<Rightarrow> exn + imagedraw" where
  "ImageDraw_Draw h r = (if r < length h then Inr \<lparr>target = r\<rparr> else Inl ValueError)"

text \<open>
  Modelled from the spec: \<^verbatim>\<open>draw.rectangle([x0, y0, x1, y1], fill=color)\<close> of the
  imaging library (not in the repository): "fill the rectangle defined by
  (x_start, y_start)-(x_end, y_end) inclusive with the fill color". Both end points
  belong to the rectangle; pixels of the rectangle outside the canvas do not exist and
  are dropped. \<open>fill_rect\<close> is the change to the pixel rows.
\<close>

definition in_box :: "int \<times> int \<times> int \<times> int \<Rightarrow> int \<times> int \<Rightarrow> bool" where
  "in_box b xy =
     (case b of (x0, y0, x1, y1) \<Rightarrow> case xy of (x, y) \<Rightarrow>
        x0 \<le> x \<and> x \<le> x1 \<and> y0 \<le> y \<and> y \<le> y1)"

definition fill_rect :: "int \<times> int \<times> int \<times> int \<Rightarrow> rgb \<Rightarrow> rgb list list \<Rightarrow> rgb list list" where
  "fill_rect b c rows =
     map (\<lambda>(y, row). map (\<lambda>(x, p). if in_box b (int x, int y) then c else p) (enumerate 0 row))
         (enumerate 0 rows)"

definition rectangle :: "heap \<Rightarrow> imagedraw \<Rightarrow> int list \<Rightarrow> string \<Rightarrow> exn + heap" where
  "rectangle h d xy fill =
     (case xy of
        [x0, y0, x1, y1] \<Rightarrow>
          (case getrgb fill of
             Inl e \<Rightarrow> Inl e
           | Inr c \<Rightarrow>
               if target d < length h
               then Inr (h[target d := (h ! target d)
                             \<lparr>pixels := fill_rect (x0, y0, x1, y1) c (pixels (h ! target d))\<rparr>])
               else Inl ValueError)
      | _ \<Rightarrow> Inl TypeError)"

text \<open>
  Modelled from the spec: \<^verbatim>\<open>image.save(name)\<close> of the imaging library (not in the
  repository): "encode the canvas as PNG and write it to a file [...] in the current
  working directory, overwriting any pre-existing file".
\<close>

definition save :: "world \<Rightarrow> heap \<Rightarrow> ref \<Rightarrow> string \<Rightarrow> exn + world" where
  "save w h r name =
     (if r < length h then Inr (w\<lparr>files := (files w)(name \<mapsto> PNG (h ! r))\<rparr>)
      else Inl ValueError)"

subsection \<open>The script\<close>

text \<open>Lines 9 and 14 to 18: the dimensions and the coordinates of the square.\<close>

definition width :: int where "width = 1600"
definition height :: int where "height = 900"
definition square_size :: int where "square_size = 600"
definition x_start :: int where "x_start = (width - square_size) div 2"
definition y_start :: int where "y_start = (height - square_size) div 2"
definition x_end :: int where "x_end = x_start + square_size"
definition y_end :: int where "y_end = y_start + square_size"

text \<open>The two messages, with their apostrophes.\<close>

definition missing_message :: string where
  "missing_message =
     ''Pillow library not found. Please install it using '' @ [CHR 0x27] @
     ''pip install Pillow'' @ [CHR 0x27]"

definition success_message :: string where
  "success_message =
     ''Image '' @ [CHR 0x27] @ ''test.png'' @ [CHR 0x27] @ '' generated successfully.''"

text \<open>
  The whole script (\<open>img\<close> is the script's variable \<^verbatim>\<open>image\<close>, \<open>h1\<close> and \<open>h2\<close> the
  store before and after the drawing). The import is the only step inside \<^verbatim>\<open>try\<close>; its handler catches
  \<^verbatim>\<open>ImportError\<close> only, prints to standard error and exits with status 1. An exception
  of any later call has no handler.
\<close>

definition generate_image :: "world \<Rightarrow> world \<times> outcome" where
  "generate_image w =
     (case call w Import_PIL (Inr ()) of
        Inl e \<Rightarrow>
          if isinstance e ImportError then (print_err w missing_message, Exit 1)
          else (w, Uncaught e)
      | Inr _ \<Rightarrow>
     (case call w Call_Image_new (Image_new [] ''RGB'' (width, height) ''white'') of
        Inl e \<Rightarrow> (w, Uncaught e)
      | Inr (h1, img) \<Rightarrow>
     (case call w Call_ImageDraw_Draw (ImageDraw_Draw h1 img) of
        Inl e \<Rightarrow> (w, Uncaught e)
      | Inr draw \<Rightarrow>
     (case call w Call_rectangle (rectangle h1 draw [x_start, y_start, x_end, y_end] ''blue'') of
        Inl e \<Rightarrow> (w, Uncaught e)
      | Inr h2 \<Rightarrow>
     (case call w Call_save (save w h2 img ''test.png'') of
        Inl e \<Rightarrow> (w, Uncaught e)
      | Inr w' \<Rightarrow> (print_out w' success_message, Finished))))))"

text \<open>The first call, in program order, that the environment makes raise.\<close>

definition first_raised :: "world \<Rightarrow> (step \<times> exn) option" where
  "first_raised w =
     (case List.find (\<lambda>s. raises w s \<noteq> None) program_order of
        None \<Rightarrow> None
      | Some s \<Rightarrow> map_option (Pair s) (raises w s))"

text \<open>The colours and the canvas the properties speak of.\<close>

definition white :: rgb where "white = (255, 255, 255)"
definition blue :: rgb where "blue = (0, 0, 255)"

text \<open>
  The canvas as it is when the script calls \<^verbatim>\<open>save\<close>: the white canvas of line 10 after
  the rectangle of line 20.
\<close>

definition canvas :: image where
  "canvas = \<lparr>mode = ''RGB'', im_size = (nat width, nat height),
             pixels = fill_rect (x_start, y_start, x_end, y_end) blue
                        (replicate (nat height) (replicate (nat width) white))\<rparr>"

text \<open>A quiet world: every call goes through, the directory is empty, nothing printed.\<close>

definition quiet :: world where
  "quiet = \<lparr>raises = (\<lambda>s. None), files = (\<lambda>n. None), stdout = [], stderr = []\<rparr>"

text \<open>
  Three more worlds: the imaging library is not installed; the disk is full when the
  file is written; a directory that already holds a \<^verbatim>\<open>test.png\<close> with other content
  and a second file, after earlier output on both streams.
\<close>

definition no_pillow :: world where
  "no_pillow = quiet\<lparr>raises := (\<lambda>s. if s = Import_PIL then Some ModuleNotFoundError else None)\<rparr>"

definition disk_full :: world where
  "disk_full = quiet\<lparr>raises := (\<lambda>s. if s = Call_save then Some OSError else None)\<rparr>"

definition used_dir :: world where
  "used_dir = \<lparr>raises = (\<lambda>s. None),
               files = (\<lambda>n. if n = ''test.png'' then Some (Bytes [1, 2, 3])
                            else if n = ''notes.txt'' then Some (Bytes [104, 105]) else None),
               stdout = [''earlier output''], stderr = [''earlier warning'']\<rparr>"

text \<open>
  Modelled from the spec: the bytes of a file. The PNG encoder belongs to the imaging
  library (not in the repository); the spec says that it embeds no randomness and no
  timestamp, so the bytes it writes are a function \<open>enc\<close> of the canvas. The encoder is
  left a parameter: what is proved about bytes holds for every such function.
  \<open>raw_rgb\<close> is one of them, the three channels of every pixel, row by row.
\<close>

fun file_bytes :: "(image \<Rightarrow> 8 word list) \<Rightarrow> file_data \<Rightarrow> 8 word list" where
  "file_bytes enc (PNG im) = enc im"
| "file_bytes enc (Bytes bs) = bs"

definition raw_rgb :: "image \<Rightarrow> 8 word list" where
  "raw_rgb im = concat (map (\<lambda>(r, g, b). [r, g, b]) (concat (pixels im)))"

section \<open>Properties\<close>

subsection \<open>The geometry\<close>

lemma coords: "x_start = 500" "y_start = 150" "x_end = 1100" "y_end = 750"
  by (simp_all add: x_start_def y_start_def x_end_def y_end_def width_def height_def square_size_def)

subsection \<open>The canvas\<close>

lemma getrgb_white: "getrgb ''white'' = Inr white"
  by (simp add: getrgb_def colormap_def white_def)

lemma getrgb_blue: "getrgb ''blue'' = Inr blue"
  by (simp add: getrgb_def colormap_def blue_def)

lemma white_neq_blue: "white \<noteq> blue"
  by (simp add: white_def blue_def)

lemma pixels_fill_rect:
  assumes "y < length rows" and "x < length (rows ! y)"
  shows "fill_rect b c rows ! y ! x = (if in_box b (int x, int y) then c else rows ! y ! x)"
  using assms by (simp add: fill_rect_def nth_enumerate_eq)

lemma length_fill_rect: "length (fill_rect b c rows) = length rows"
  by (simp add: fill_rect_def)

lemma length_fill_rect_row: "y < length rows \<Longrightarrow> length (fill_rect b c rows ! y) = length (rows ! y)"
  by (simp add: fill_rect_def nth_enumerate_eq)

lemma pixel_at_canvas:
  "pixel_at canvas (x, y) =
     (if 0 \<le> x \<and> x < width \<and> 0 \<le> y \<and> y < height
      then Some (if in_box (x_start, y_start, x_end, y_end) (x, y) then blue else white)
      else None)"
proof (cases "0 \<le> x \<and> x < width \<and> 0 \<le> y \<and> y < height")
  case True
  then have y: "nat y < nat height" and x: "nat x < nat width" by auto
  have "pixels canvas ! nat y ! nat x =
          (if in_box (x_start, y_start, x_end, y_end) (int (nat x), int (nat y)) then blue else white)"
    unfolding canvas_def using x y by (simp add: pixels_fill_rect)
  with True show ?thesis
    by (simp add: pixel_at_def canvas_def width_def height_def)
next
  case False
  then show ?thesis
    by (auto simp add: pixel_at_def canvas_def width_def height_def)
qed

subsection \<open>The script, call by call\<close>

lemma drawing_result:
  "Image_new [] ''RGB'' (width, height) ''white'' =
     Inr ([\<lparr>mode = ''RGB'', im_size = (nat width, nat height),
             pixels = replicate (nat height) (replicate (nat width) white)\<rparr>], 0)"
  "ImageDraw_Draw [im] 0 = Inr \<lparr>target = 0\<rparr>"
  "rectangle [\<lparr>mode = ''RGB'', im_size = (nat width, nat height),
                pixels = replicate (nat height) (replicate (nat width) white)\<rparr>]
             \<lparr>target = 0\<rparr> [x_start, y_start, x_end, y_end] ''blue'' = Inr [canvas]"
  "save w [canvas] 0 ''test.png'' = Inr (w\<lparr>files := (files w)(''test.png'' \<mapsto> PNG canvas)\<rparr>)"
  by (simp_all add: Image_new_def ImageDraw_Draw_def rectangle_def save_def getrgb_white
      getrgb_blue canvas_def width_def height_def)

lemma first_raised_None: "first_raised w = None \<longleftrightarrow> (\<forall>s. raises w s = None)"
proof
  assume "first_raised w = None"
  then have a: "raises w Import_PIL = None \<and> raises w Call_Image_new = None \<and>
     raises w Call_ImageDraw_Draw = None \<and> raises w Call_rectangle = None \<and>
     raises w Call_save = None"
    by (auto simp add: first_raised_def program_order_def split: if_splits)
  show "\<forall>s. raises w s = None"
  proof
    fix s show "raises w s = None" using a by (cases s) simp_all
  qed
next
  assume "\<forall>s. raises w s = None"
  then show "first_raised w = None"
    by (simp add: first_raised_def program_order_def)
qed

lemma generate_image_no_raise:
  assumes "first_raised w = None"
  shows "generate_image w =
           (w\<lparr>files := (files w)(''test.png'' \<mapsto> PNG canvas),
              stdout := stdout w @ [success_message]\<rparr>, Finished)"
proof -
  from assms have "\<forall>s. raises w s = None" by (simp add: first_raised_None)
  then show ?thesis
    by (simp add: generate_image_def call_def drawing_result print_out_def)
qed

lemma generate_image_raise:
  assumes "first_raised w = Some (s, e)"
  shows "generate_image w =
           (if s = Import_PIL \<and> isinstance e ImportError
            then (print_err w missing_message, Exit 1) else (w, Uncaught e))"
  using assms
  by (auto simp add: first_raised_def program_order_def generate_image_def call_def drawing_result
       split: if_splits)

lemma finished_iff: "snd (generate_image w) = Finished \<longleftrightarrow> first_raised w = None"
proof (cases "first_raised w")
  case None
  then show ?thesis by (simp add: generate_image_no_raise)
next
  case (Some a)
  then obtain s e where "first_raised w = Some (s, e)" by (cases a) simp
  then show ?thesis by (simp add: generate_image_raise)
qed

subsection \<open>The blue region and the worlds used below\<close>

lemma blue_set: "{xy. pixel_at canvas xy = Some blue} = {500..1100} \<times> {150..750}"
  by (auto simp add: pixel_at_canvas in_box_def coords width_def height_def white_neq_blue
      split: if_splits)

lemma box_set: "{xy. in_box (x_start, y_start, x_end, y_end) xy} = {500..1100} \<times> {150..750}"
  by (auto simp add: in_box_def coords)

lemma colours_of_canvas: "{c. \<exists>p. pixel_at canvas p = Some c} = {white, blue}"
proof -
  have "pixel_at canvas (0, 0) = Some white" "pixel_at canvas (800, 450) = Some blue"
    by (simp_all add: pixel_at_canvas in_box_def coords width_def height_def)
  moreover have "pixel_at canvas p = Some c \<Longrightarrow> c = white \<or> c = blue" for p c
    by (cases p) (auto simp add: pixel_at_canvas split: if_splits)
  ultimately show ?thesis by blast
qed

lemma canvas_size: "im_size canvas = (1600, 900)" "mode canvas = ''RGB''"
  by (simp_all add: canvas_def width_def height_def)

lemma canvas_rows:
  "length (pixels canvas) = 900" "y < 900 \<Longrightarrow> length (pixels canvas ! y) = 1600"
  by (simp_all add: canvas_def width_def height_def length_fill_rect length_fill_rect_row)

lemma count_list_replicate: "count_list (replicate n x) y = (if x = y then n else 0)"
  by (induction n) (auto split: if_splits)

lemma canvas_row_450:
  "pixels canvas ! 450 = replicate 500 white @ replicate 601 blue @ replicate 499 white"
proof (rule nth_equalityI)
  show "length (pixels canvas ! 450) =
        length (replicate 500 white @ replicate 601 blue @ replicate 499 white)"
    by (simp add: canvas_rows)
next
  fix i assume "i < length (pixels canvas ! 450)"
  then have i: "i < 1600" by (simp add: canvas_rows)
  have "pixels canvas ! 450 ! i =
          (if in_box (x_start, y_start, x_end, y_end) (int i, 450) then blue else white)"
    using i unfolding canvas_def
    by (simp add: pixels_fill_rect width_def height_def)
  also have "\<dots> = (replicate 500 white @ replicate 601 blue @ replicate 499 white) ! i"
    using i by (auto simp add: in_box_def coords nth_append)
  finally show "pixels canvas ! 450 ! i =
      (replicate 500 white @ replicate 601 blue @ replicate 499 white) ! i" .
qed

lemma count_row_450: "count_list (pixels canvas ! 450) blue = 601"
  using white_neq_blue by (simp add: canvas_row_450 count_list_replicate)

lemma white_set:
  "{xy. pixel_at canvas xy = Some white} =
     ({0..1599} \<times> {0..899}) - ({500..1100} \<times> {150..750})"
  using white_neq_blue
  by (auto simp add: pixel_at_canvas in_box_def coords width_def height_def split: if_splits)

lemma finished_file:
  "snd (generate_image w) = Finished \<Longrightarrow>
   files (fst (generate_image w)) = (files w)(''test.png'' \<mapsto> PNG canvas)"
  by (simp add: finished_iff generate_image_no_raise)

lemma used_dir_before: "files used_dir ''test.png'' = Some (Bytes [1, 2, 3])"
  by (simp add: used_dir_def)

lemma first_raised_quiet: "first_raised quiet = None"
  by (simp add: first_raised_None quiet_def)

lemma first_raised_used_dir: "first_raised used_dir = None"
  by (simp add: first_raised_None used_dir_def)

lemma first_raised_disk_full: "first_raised disk_full = Some (Call_save, OSError)"
  by (simp add: first_raised_def program_order_def disk_full_def quiet_def)

lemma first_raised_import:
  "raises w Import_PIL = Some e \<Longrightarrow> first_raised w = Some (Import_PIL, e)"
  by (simp add: first_raised_def program_order_def)

lemma finished_quiet: "snd (generate_image quiet) = Finished"
  by (simp add: finished_iff first_raised_quiet)

lemma finished_used_dir: "snd (generate_image used_dir) = Finished"
  by (simp add: finished_iff first_raised_used_dir)

subsection \<open>The picture that is written\<close>

text \<open>
  C1. A successful run leaves a PNG file \<^verbatim>\<open>test.png\<close> in the working directory. It shows
  a canvas of 1600 by 900 pixels, white, with a single blue square. The bounding box of
  the square has side \<open>square_size = 600\<close> and is centred on the canvas
  (\<open>x_start + x_end = width\<close>, \<open>y_start + y_end = height\<close>); as both end points of the box
  are filled, the blue pixels are columns 500 to 1100 and rows 150 to 750, which is
  601 by 601 pixels and not 600 by 600. Every other pixel of the canvas is white.
\<close>

theorem written_picture:
  assumes "snd (generate_image w) = Finished"
  shows "files (fst (generate_image w)) ''test.png'' = Some (PNG canvas) \<and>
         mode canvas = ''RGB'' \<and> im_size canvas = (1600, 900) \<and>
         length (pixels canvas) = 900 \<and>
         square_size = 600 \<and>
         x_end - x_start = square_size \<and> y_end - y_start = square_size \<and>
         x_start + x_end = width \<and> y_start + y_end = height \<and>
         {xy. pixel_at canvas xy = Some blue} = {x_start..x_end} \<times> {y_start..y_end} \<and>
         {xy. pixel_at canvas xy = Some white} =
           ({0..width - 1} \<times> {0..height - 1}) - ({x_start..x_end} \<times> {y_start..y_end}) \<and>
         card {x_start..x_end} = 601 \<and> card {y_start..y_end} = 601"
proof -
  have written: "files (fst (generate_image w)) ''test.png'' = Some (PNG canvas)"
    using assms by (simp add: finished_file)
  have geometry: "square_size = 600 \<and>
      x_end - x_start = square_size \<and> y_end - y_start = square_size \<and>
      x_start + x_end = width \<and> y_start + y_end = height"
    by (simp add: coords square_size_def width_def height_def)
  have blue_px: "{xy. pixel_at canvas xy = Some blue} = {x_start..x_end} \<times> {y_start..y_end}"
    by (simp only: blue_set coords)
  have white_px: "{xy. pixel_at canvas xy = Some white} =
      ({0..width - 1} \<times> {0..height - 1}) - ({x_start..x_end} \<times> {y_start..y_end})"
    by (simp add: white_set coords width_def height_def)
  have cards: "card {x_start..x_end} = 601 \<and> card {y_start..y_end} = 601"
    by (simp add: coords)
  from written geometry blue_px white_px cards show ?thesis
    by (simp only: canvas_size canvas_rows simp_thms)
qed

theorem written_picture_witness:
  "snd (generate_image used_dir) = Finished \<and>
   files used_dir ''test.png'' = Some (Bytes [1, 2, 3]) \<and>
   files (fst (generate_image used_dir)) ''test.png'' = Some (PNG canvas) \<and>
   im_size canvas = (1600, 900) \<and>
   x_end - x_start = 600 \<and> x_start + x_end = 1600 \<and> y_start + y_end = 900 \<and>
   card {x_start..x_end} = 601"
  using written_picture [OF finished_used_dir] finished_used_dir used_dir_before
  by (simp add: square_size_def width_def height_def)

text \<open>
  The square is not 600 by 600 pixels, and its margins are not equal: in the empty
  directory the run finishes and writes the canvas, whose row 450 is 500 white pixels,
  then 601 blue ones, then 499 white ones; the pixel one past a square of side 600,
  at \<open>(x_start + square_size, y_start + square_size)\<close>, is blue.
\<close>

theorem square_600_counterexample:
  "snd (generate_image quiet) = Finished \<and>
   files (fst (generate_image quiet)) ''test.png'' = Some (PNG canvas) \<and>
   pixels canvas ! 450 = replicate 500 white @ replicate 601 blue @ replicate 499 white \<and>
   count_list (pixels canvas ! 450) blue = 601 \<and>
   count_list (pixels canvas ! 450) blue \<noteq> 600 \<and>
   pixel_at canvas (x_start + square_size, y_start + square_size) = Some blue"
proof -
  have written: "files (fst (generate_image quiet)) ''test.png'' = Some (PNG canvas)"
    using finished_quiet by (simp add: finished_file)
  have corner: "pixel_at canvas (x_start + square_size, y_start + square_size) = Some blue"
    by (simp add: pixel_at_canvas in_box_def coords width_def height_def square_size_def)
  have count: "count_list (pixels canvas ! 450) blue \<noteq> 600"
    by (simp add: count_row_450)
  from finished_quiet written canvas_row_450 count_row_450 count corner show ?thesis
    by blast
qed

subsection \<open>The coordinates\<close>

text \<open>
  C2. The bounding box comes from floor division of the constants:
  \<open>x_start = (1600 - 600) div 2 = 500\<close>, \<open>y_start = (900 - 600) div 2 = 150\<close>,
  \<open>x_end = x_start + 600 = 1100\<close>, \<open>y_end = y_start + 600 = 750\<close>, so the four corners
  are (500,150), (1100,150), (500,750) and (1100,750).
\<close>

theorem bounding_box_coordinates:
  "x_start = (1600 - 600) div 2 \<and> x_start = 500 \<and>
   y_start = (900 - 600) div 2 \<and> y_start = 150 \<and>
   x_end = x_start + 600 \<and> x_end = 1100 \<and>
   y_end = y_start + 600 \<and> y_end = 750 \<and>
   [(x_start, y_start), (x_end, y_start), (x_start, y_end), (x_end, y_end)] =
     [(500, 150), (1100, 150), (500, 750), (1100, 750)]"
  by (simp add: x_start_def y_start_def x_end_def y_end_def width_def height_def square_size_def)

subsection \<open>The missing library\<close>

text \<open>
  C3. When the import of the imaging library raises an \<^verbatim>\<open>ImportError\<close>, the run writes
  exactly the diagnostic line
  \<^verbatim>\<open>Pillow library not found. Please install it using 'pip install Pillow'\<close>
  to standard error and exits with status 1; nothing else changes: no file is written
  and nothing goes to standard output. (A string literal cannot end in an apostrophe, so
  the last character of the line is appended as \<open>CHR 0x27\<close>.)
\<close>

theorem missing_library_exit:
  assumes "raises w Import_PIL = Some e" and "isinstance e ImportError"
  shows "generate_image w = (w\<lparr>stderr := stderr w @ [missing_message]\<rparr>, Exit 1) \<and>
         stderr (fst (generate_image w)) = stderr w @ [''Pillow library not found. Please install it using 'pip install Pillow'' @ [CHR 0x27]] \<and>
         snd (generate_image w) = Exit 1 \<and>
         files (fst (generate_image w)) = files w \<and>
         stdout (fst (generate_image w)) = stdout w"
  using assms
  by (simp add: generate_image_raise [OF first_raised_import] print_err_def missing_message_def)

theorem missing_library_exit_witness:
  "raises no_pillow Import_PIL = Some ModuleNotFoundError \<and>
   isinstance ModuleNotFoundError ImportError \<and>
   generate_image no_pillow = (no_pillow\<lparr>stderr := [missing_message]\<rparr>, Exit 1) \<and>
   stderr (fst (generate_image no_pillow)) = [''Pillow library not found. Please install it using 'pip install Pillow'' @ [CHR 0x27]] \<and>
   length (''Pillow library not found. Please install it using 'pip install Pillow'' @ [CHR 0x27]) = 70 \<and>
   files (fst (generate_image no_pillow)) ''test.png'' = None \<and>
   stdout (fst (generate_image no_pillow)) = []"
proof -
  have p1: "raises no_pillow Import_PIL = Some ModuleNotFoundError"
    by (simp add: no_pillow_def quiet_def)
  have p2: "isinstance ModuleNotFoundError ImportError"
    by simp
  have before: "stderr no_pillow = []" "stdout no_pillow = []" "files no_pillow ''test.png'' = None"
    by (simp_all add: no_pillow_def quiet_def)
  from missing_library_exit [OF p1 p2] p1 p2 before show ?thesis
    by (simp add: missing_message_def)
qed

subsection \<open>Pixels of the written canvas\<close>

text \<open>
  C4. The rectangle is filled with both end points included: after a successful run the
  pixels at \<open>(x_start, y_start)\<close> and at \<open>(x_end, y_end)\<close> are blue, and the blue
  pixels are exactly columns 500 to 1100 and rows 150 to 750, that is 601 columns and
  601 rows.
\<close>

theorem rectangle_inclusive:
  assumes "snd (generate_image w) = Finished"
  shows "files (fst (generate_image w)) ''test.png'' = Some (PNG canvas) \<and>
         pixel_at canvas (x_start, y_start) = Some blue \<and>
         pixel_at canvas (x_end, y_end) = Some blue \<and>
         {xy. pixel_at canvas xy = Some blue} = {500..1100} \<times> {150..750} \<and>
         card {500..1100::int} = 601 \<and> card {150..750::int} = 601"
  using assms
  by (simp add: finished_iff generate_image_no_raise blue_set pixel_at_canvas in_box_def coords
      width_def height_def)

theorem rectangle_inclusive_witness:
  "snd (generate_image quiet) = Finished \<and>
   files (fst (generate_image quiet)) ''test.png'' = Some (PNG canvas) \<and>
   pixel_at canvas (500, 150) = Some blue \<and>
   pixel_at canvas (1100, 750) = Some blue \<and>
   card {xy. pixel_at canvas xy = Some blue} = 601 * 601"
  using rectangle_inclusive [of quiet]
  by (simp add: generate_image_no_raise first_raised_quiet coords card_cartesian_product)

text \<open>
  C5. After every successful run the pixel at (0,0) of the written image is white and
  the pixel at (width div 2, height div 2) = (800, 450) is blue.
\<close>

theorem corner_and_centre_pixels:
  assumes "snd (generate_image w) = Finished"
  shows "files (fst (generate_image w)) ''test.png'' = Some (PNG canvas) \<and>
         pixel_at canvas (0, 0) = Some white \<and>
         pixel_at canvas (width div 2, height div 2) = Some blue \<and>
         (width div 2, height div 2) = (800, 450)"
  using assms
  by (simp add: finished_iff generate_image_no_raise pixel_at_canvas in_box_def coords
      width_def height_def)

theorem corner_and_centre_pixels_witness:
  "snd (generate_image used_dir) = Finished \<and>
   files (fst (generate_image used_dir)) ''test.png'' = Some (PNG canvas) \<and>
   pixel_at canvas (0, 0) = Some white \<and>
   pixel_at canvas (800, 450) = Some blue"
  using corner_and_centre_pixels [of used_dir]
  by (simp add: generate_image_no_raise first_raised_used_dir width_def height_def)

subsection \<open>Two runs\<close>

text \<open>
  C6. The run is deterministic. It reads nothing of the world it starts in: every
  successful run leaves a \<^verbatim>\<open>test.png\<close> that holds the PNG encoding of the same canvas,
  whatever the directory held and whatever was printed before, so two successful runs
  leave files with the same content, byte for byte under every encoder that is a
  function of the canvas; and a successful run in the directory a first run has left
  overwrites the file with the same content, so the directory stays as it was.
\<close>

theorem rendering_deterministic:
  assumes "snd (generate_image w1) = Finished" and "snd (generate_image w2) = Finished"
  shows "files (fst (generate_image w1)) ''test.png'' = Some (PNG canvas) \<and>
         files (fst (generate_image w2)) ''test.png'' = Some (PNG canvas) \<and>
         files (fst (generate_image w1)) ''test.png'' = files (fst (generate_image w2)) ''test.png'' \<and>
         map_option (file_bytes enc) (files (fst (generate_image w1)) ''test.png'') = Some (enc canvas) \<and>
         map_option (file_bytes enc) (files (fst (generate_image w2)) ''test.png'') = Some (enc canvas) \<and>
         (files w2 = files (fst (generate_image w1)) \<longrightarrow>
            files (fst (generate_image w2)) = files w2)"
proof -
  have f1: "files (fst (generate_image w1)) = (files w1)(''test.png'' \<mapsto> PNG canvas)"
    using assms(1) by (rule finished_file)
  have f2: "files (fst (generate_image w2)) = (files w2)(''test.png'' \<mapsto> PNG canvas)"
    using assms(2) by (rule finished_file)
  have c1: "files (fst (generate_image w1)) ''test.png'' = Some (PNG canvas)"
    by (simp only: f1 fun_upd_same)
  have c2: "files (fst (generate_image w2)) ''test.png'' = Some (PNG canvas)"
    by (simp only: f2 fun_upd_same)
  have same: "files (fst (generate_image w1)) ''test.png'' = files (fst (generate_image w2)) ''test.png''"
    by (simp only: c1 c2)
  have b1: "map_option (file_bytes enc) (files (fst (generate_image w1)) ''test.png'') = Some (enc canvas)"
    by (simp add: c1)
  have b2: "map_option (file_bytes enc) (files (fst (generate_image w2)) ''test.png'') = Some (enc canvas)"
    by (simp add: c2)
  have again: "files (fst (generate_image w2)) = files w2"
    if "files w2 = files (fst (generate_image w1))"
  proof -
    from that f1 have "files w2 = (files w1)(''test.png'' \<mapsto> PNG canvas)"
      by (rule trans)
    then have "(files w2)(''test.png'' \<mapsto> PNG canvas) = files w2"
      by (simp only: fun_upd_upd)
    with f2 show ?thesis by (rule trans)
  qed
  from c1 c2 same b1 b2 again show ?thesis by blast
qed

theorem rendering_deterministic_witness:
  "snd (generate_image used_dir) = Finished \<and>
   snd (generate_image (fst (generate_image used_dir))) = Finished \<and>
   files used_dir ''test.png'' = Some (Bytes [1, 2, 3]) \<and>
   files (fst (generate_image used_dir)) ''test.png'' = Some (PNG canvas) \<and>
   files (fst (generate_image (fst (generate_image used_dir)))) ''test.png'' = Some (PNG canvas) \<and>
   map_option (file_bytes raw_rgb) (files (fst (generate_image used_dir)) ''test.png'') =
     map_option (file_bytes raw_rgb)
       (files (fst (generate_image (fst (generate_image used_dir)))) ''test.png'') \<and>
   files (fst (generate_image (fst (generate_image used_dir)))) =
     files (fst (generate_image used_dir))"
proof -
  have "raises (fst (generate_image used_dir)) = raises used_dir"
    by (simp add: generate_image_no_raise first_raised_used_dir)
  then have "first_raised (fst (generate_image used_dir)) = None"
    using first_raised_used_dir by (simp add: first_raised_None)
  then have ok2: "snd (generate_image (fst (generate_image used_dir))) = Finished"
    by (simp add: finished_iff)
  note runs = rendering_deterministic [OF finished_used_dir ok2, of raw_rgb]
  from runs have a1: "files (fst (generate_image used_dir)) ''test.png'' = Some (PNG canvas)"
    by blast
  from runs have a2:
    "files (fst (generate_image (fst (generate_image used_dir)))) ''test.png'' = Some (PNG canvas)"
    by blast
  from runs have b1:
    "map_option (file_bytes raw_rgb) (files (fst (generate_image used_dir)) ''test.png'') =
       Some (raw_rgb canvas)"
    by blast
  from runs have b2:
    "map_option (file_bytes raw_rgb)
       (files (fst (generate_image (fst (generate_image used_dir)))) ''test.png'') =
       Some (raw_rgb canvas)"
    by blast
  have bytes:
    "map_option (file_bytes raw_rgb) (files (fst (generate_image used_dir)) ''test.png'') =
     map_option (file_bytes raw_rgb)
       (files (fst (generate_image (fst (generate_image used_dir)))) ''test.png'')"
    by (simp only: b1 b2)
  from runs have unchanged:
    "files (fst (generate_image (fst (generate_image used_dir)))) =
       files (fst (generate_image used_dir))"
    by blast
  from finished_used_dir ok2 used_dir_before a1 a2 bytes unchanged show ?thesis
    by blast
qed

subsection \<open>What a successful run changes\<close>

text \<open>
  C7. A successful run changes exactly two things: the file \<^verbatim>\<open>test.png\<close> of the working
  directory, and standard output, which gets the one confirmation line
  \<^verbatim>\<open>Image 'test.png' generated successfully.\<close> Standard error and every other file
  are as before.
\<close>

theorem success_effects:
  assumes "snd (generate_image w) = Finished"
  shows "fst (generate_image w) =
           w\<lparr>files := (files w)(''test.png'' \<mapsto> PNG canvas),
             stdout := stdout w @ [success_message]\<rparr> \<and>
         stdout (fst (generate_image w)) = stdout w @ [''Image 'test.png' generated successfully.''] \<and>
         stderr (fst (generate_image w)) = stderr w \<and>
         files (fst (generate_image w)) ''test.png'' = Some (PNG canvas) \<and>
         (name \<noteq> ''test.png'' \<longrightarrow> files (fst (generate_image w)) name = files w name)"
  using assms by (simp add: finished_iff generate_image_no_raise success_message_def)

theorem success_effects_witness:
  "snd (generate_image used_dir) = Finished \<and>
   ''notes.txt'' \<noteq> ''test.png'' \<and>
   stdout (fst (generate_image used_dir)) = [''earlier output'', ''Image 'test.png' generated successfully.''] \<and>
   length ''Image 'test.png' generated successfully.'' = 40 \<and>
   stderr (fst (generate_image used_dir)) = [''earlier warning''] \<and>
   files (fst (generate_image used_dir)) ''test.png'' = Some (PNG canvas) \<and>
   files (fst (generate_image used_dir)) ''notes.txt'' = Some (Bytes [104, 105])"
proof -
  have ok: "snd (generate_image used_dir) = Finished"
    by (rule finished_used_dir)
  show ?thesis
    using ok success_effects [OF ok, of "''notes.txt''"]
    by (simp add: used_dir_def success_message_def)
qed

subsection \<open>Failures other than the missing library\<close>

text \<open>
  C8. The missing library is the only failure the script handles. Whatever call raises
  first (a failing write of \<^verbatim>\<open>test.png\<close> included), the run ends with that exception
  uncaught, unless the call is the import and the exception an \<^verbatim>\<open>ImportError\<close>; the
  script then prints nothing, neither the confirmation nor a diagnostic of its own.
\<close>

theorem other_failures_propagate:
  assumes "first_raised w = Some (s, e)"
  shows "snd (generate_image w) =
           (if s = Import_PIL \<and> isinstance e ImportError then Exit 1 else Uncaught e) \<and>
         (\<not> (s = Import_PIL \<and> isinstance e ImportError) \<longrightarrow>
            snd (generate_image w) = Uncaught e \<and>
            stdout (fst (generate_image w)) = stdout w \<and>
            stderr (fst (generate_image w)) = stderr w)"
  using assms by (simp add: generate_image_raise)

theorem other_failures_propagate_witness:
  "first_raised disk_full = Some (Call_save, OSError) \<and>
   \<not> (Call_save = Import_PIL \<and> isinstance OSError ImportError) \<and>
   snd (generate_image disk_full) = Uncaught OSError \<and>
   stdout (fst (generate_image disk_full)) = [] \<and>
   stderr (fst (generate_image disk_full)) = []"
proof -
  have out: "stdout disk_full = []" "stderr disk_full = []"
    by (simp_all add: disk_full_def quiet_def)
  from other_failures_propagate [OF first_raised_disk_full] first_raised_disk_full out
  show ?thesis by simp
qed

subsection \<open>Every pixel\<close>

text \<open>
  C9. The written canvas has exactly two colours: for every coordinate with
  \<open>0 \<le> x < 1600\<close> and \<open>0 \<le> y < 900\<close> the pixel is blue if and only if
  \<open>500 \<le> x \<le> 1100\<close> and \<open>150 \<le> y \<le> 750\<close>, and white otherwise.
\<close>

theorem canvas_two_colours:
  assumes "snd (generate_image w) = Finished"
    and "0 \<le> x" and "x < 1600" and "0 \<le> y" and "y < 900"
  shows "files (fst (generate_image w)) ''test.png'' = Some (PNG canvas) \<and>
         (pixel_at canvas (x, y) = Some blue \<longleftrightarrow> 500 \<le> x \<and> x \<le> 1100 \<and> 150 \<le> y \<and> y \<le> 750) \<and>
         (pixel_at canvas (x, y) = Some white \<longleftrightarrow> \<not> (500 \<le> x \<and> x \<le> 1100 \<and> 150 \<le> y \<and> y \<le> 750)) \<and>
         white \<noteq> blue \<and>
         {c. \<exists>p. pixel_at canvas p = Some c} = {white, blue}"
proof -
  have "files (fst (generate_image w)) ''test.png'' = Some (PNG canvas)"
    using assms(1) by (simp add: finished_iff generate_image_no_raise)
  moreover have "pixel_at canvas (x, y) =
      Some (if 500 \<le> x \<and> x \<le> 1100 \<and> 150 \<le> y \<and> y \<le> 750 then blue else white)"
    using assms(2-5) by (simp add: pixel_at_canvas in_box_def coords width_def height_def)
  ultimately show ?thesis
    using white_neq_blue colours_of_canvas by auto
qed

theorem canvas_two_colours_witness:
  "snd (generate_image quiet) = Finished \<and>
   files (fst (generate_image quiet)) ''test.png'' = Some (PNG canvas) \<and>
   pixel_at canvas (1100, 750) = Some blue \<and>
   pixel_at canvas (1100, 750) \<noteq> Some white \<and>
   pixel_at canvas (1101, 750) = Some white \<and>
   pixel_at canvas (1101, 750) \<noteq> Some blue"
proof -
  have ok: "snd (generate_image quiet) = Finished"
    by (simp add: finished_iff first_raised_quiet)
  show ?thesis
    using ok canvas_two_colours [OF ok, of 1100 750] canvas_two_colours [OF ok, of 1101 750]
    by auto
qed

text \<open>
  C10. The rectangle lies within the canvas, end points included:
  \<open>0 \<le> x_start\<close>, \<open>x_end = 1100 \<le> width - 1 = 1599\<close>, \<open>0 \<le> y_start\<close> and
  \<open>y_end = 750 \<le> height - 1 = 899\<close>. Nothing is clipped: the points of the box are
  exactly the blue pixels of the canvas, and no point of the box is off the canvas.
\<close>

theorem square_within_canvas:
  "0 \<le> x_start \<and> x_end \<le> width - 1 \<and> 0 \<le> y_start \<and> y_end \<le> height - 1 \<and>
   x_end = 1100 \<and> width - 1 = 1599 \<and> y_end = 750 \<and> height - 1 = 899 \<and>
   {xy. in_box (x_start, y_start, x_end, y_end) xy} = {xy. pixel_at canvas xy = Some blue} \<and>
   {xy. in_box (x_start, y_start, x_end, y_end) xy \<and> pixel_at canvas xy = None} = {}"
proof -
  have bounds: "0 \<le> x_start \<and> x_end \<le> width - 1 \<and> 0 \<le> y_start \<and> y_end \<le> height - 1 \<and>
      x_end = 1100 \<and> width - 1 = 1599 \<and> y_end = 750 \<and> height - 1 = 899"
    by (simp add: coords width_def height_def)
  have same: "{xy. in_box (x_start, y_start, x_end, y_end) xy} = {xy. pixel_at canvas xy = Some blue}"
    by (simp only: box_set blue_set)
  have "pixel_at canvas xy \<noteq> None" if "in_box (x_start, y_start, x_end, y_end) xy" for xy
  proof -
    from that have "xy \<in> {xy. pixel_at canvas xy = Some blue}"
      unfolding same [symmetric] by simp
    then show ?thesis by simp
  qed
  then have none: "{xy. in_box (x_start, y_start, x_end, y_end) xy \<and> pixel_at canvas xy = None} = {}"
    by blast
  from bounds same none show ?thesis by (intro conjI) simp_all
qed

end
